theory Spec2Isabelle
  imports Main
begin

section \<open>Data model of \<open>src/quoter.ts\<close>\<close>

text \<open>
  \<open>TradeType\<close> of the SDK core: the two trade directions.
\<close>

datatype TradeType = EXACT_INPUT | EXACT_OUTPUT

text \<open>
  \<open>FeeAmount\<close> is a numeric enum of \<open>./constants\<close>; at run time a fee is a number.
  \<open>BigintIsh\<close> (a big integer, a decimal string or a number) is modelled by the integer it
  denotes.
\<close>

type_synonym FeeAmount = nat
type_synonym BigintIsh = int

record Token =
  address :: string

record Pool =
  fee :: FeeAmount

text \<open>
  A route as \<open>quoteCallParameters\<close> reads it: \<open>route.pools\<close> and \<open>route.tokenPath\<close>.
\<close>

record Route =
  pools :: "Pool list"
  tokenPath :: "Token list"

text \<open>
  Modelled from the spec: the class \<open>Route\<close> of \<open>./entities\<close> is not part of the source
  at hand; the data model gives its invariant as \<open>tokens.length == pools.length + 1\<close>.
\<close>

definition route_invariant :: "Route \<Rightarrow> bool" where
  "route_invariant route = (length (tokenPath route) = length (pools route) + 1)"

text \<open>
  \<open>CurrencyAmount\<close>: a currency reference and the integer quantity \<open>amount.quotient\<close>.
\<close>

record 'cur CurrencyAmount =
  currency :: 'cur
  quotient :: int

text \<open>
  \<open>QuoteOptions\<close>: both fields are optional; \<open>None\<close> is \<open>undefined\<close>. The default
  argument \<open>options = {}\<close> is \<open>no_options\<close>.
\<close>

record QuoteOptions =
  sqrtPriceLimitX96 :: "BigintIsh option"
  useQuoterV2 :: "bool option"

definition no_options :: QuoteOptions where
  "no_options = \<lparr>sqrtPriceLimitX96 = None, useQuoterV2 = None\<rparr>"

text \<open>
  \<open>MethodParameters\<close>: the result, two hex strings.
\<close>

record MethodParameters =
  calldata :: string
  "value" :: string

text \<open>
  The two contract interfaces: the static \<open>SwapQuoter.INTERFACE\<close> (built from the V1
  quoter's ABI) and \<open>new Interface(IQuoterV2.abi)\<close>.
\<close>

datatype QuoterInterface = QuoterV1 | QuoterV2

text \<open>
  The JavaScript values handed to \<open>encodeFunctionData\<close>: strings, numbers and one plain
  object. An object is the list of its own properties in insertion order (none of the keys
  used here is an array index, so insertion order is the order of \<open>Object.values\<close>).
\<close>

datatype jsval = JString string | JNumber nat | JObject "(string \<times> jsval) list"

type_synonym jsobject = "(string \<times> jsval) list"

text \<open>\<open>obj.k = v\<close>: an existing property keeps its place, a new one goes last.\<close>

fun obj_set :: "string \<Rightarrow> jsval \<Rightarrow> jsobject \<Rightarrow> jsobject" where
  "obj_set k v [] = [(k, v)]"
| "obj_set k v ((k', v') # ps) =
     (if k' = k then (k, v) # ps else (k', v') # obj_set k v ps)"

text \<open>\<open>delete obj.k\<close>.\<close>

fun obj_delete :: "string \<Rightarrow> jsobject \<Rightarrow> jsobject" where
  "obj_delete k [] = []"
| "obj_delete k ((k', v') # ps) =
     (if k' = k then obj_delete k ps else (k', v') # obj_delete k ps)"

definition Object_values :: "jsobject \<Rightarrow> jsval list" where
  "Object_values ps = map snd ps"

text \<open>\<open>xs[i]\<close>: \<open>undefined\<close> out of range.\<close>

fun index :: "'a list \<Rightarrow> nat \<Rightarrow> 'a option" where
  "index [] i = None"
| "index (x # xs) 0 = Some x"
| "index (x # xs) (Suc i) = index xs i"

text \<open>The truthiness test of an optional boolean, as in \<open>options.useQuoterV2 ? a : b\<close>.\<close>

fun truthy :: "bool option \<Rightarrow> bool" where
  "truthy None = False"
| "truthy (Some b) = b"

text \<open>
  What a call can throw: the failed \<open>invariant\<close> with its message (the precondition
  violation that the spec names \<open>InvalidArgumentCombination\<close>), the \<open>TypeError\<close> of a
  property read on \<open>undefined\<close>, and whatever one of the two encoders throws, passed on
  unchanged (the spec's \<open>EncodingError\<close>).
\<close>

datatype 'e error = InvariantFailed string | TypeError | EncodingError 'e

section \<open>\<open>SwapQuoter.quoteCallParameters\<close>\<close>

text \<open>
  The helpers \<open>toHex\<close> and \<open>encodeRouteToPath\<close> of \<open>./utils\<close> and the method
  \<open>encodeFunctionData\<close> of the ABI library are parameters. Each encoder either throws
  (\<open>Inl\<close>) or returns a hex string.

  The last step of the function, \<open>return { calldata, value: toHex(0) }\<close>, is reached only
  when the branch before it has not thrown.
\<close>

definition returnParameters ::
  "(BigintIsh \<Rightarrow> string) \<Rightarrow> 'e + string \<Rightarrow> 'e error + MethodParameters" where
  "returnParameters toHex encoded =
     (case encoded of
        Inl e \<Rightarrow> Inl (EncodingError e)
      | Inr data \<Rightarrow> Inr \<lparr>calldata = data, value = toHex 0\<rparr>)"

definition quoteCallParameters ::
  "(BigintIsh \<Rightarrow> string) \<Rightarrow> (Route \<Rightarrow> bool \<Rightarrow> 'e + string) \<Rightarrow>
   (QuoterInterface \<Rightarrow> string \<Rightarrow> jsval list \<Rightarrow> 'e + string) \<Rightarrow>
   Route \<Rightarrow> 'cur CurrencyAmount \<Rightarrow> TradeType \<Rightarrow> QuoteOptions \<Rightarrow>
   'e error + MethodParameters" where
  "quoteCallParameters toHex encodeRouteToPath encodeFunctionData route amount tradeType options =
     (let singleHop = (length (pools route) = 1);
          quoteAmount = toHex (quotient amount);
          swapInterface = (if truthy (useQuoterV2 options) then QuoterV2 else QuoterV1)
      in
      if singleHop then
        (case (index (pools route) 0, index (tokenPath route) 0, index (tokenPath route) 1) of
           (Some pool0, Some token0, Some token1) \<Rightarrow>
             (let quoteV2Params =
                    [(''amount'', JString quoteAmount),
                     (''fee'', JNumber (fee pool0)),
                     (''sqrtPriceLimitX96'',
                        JString (toHex (case sqrtPriceLimitX96 options of
                                          None \<Rightarrow> 0 | Some limit \<Rightarrow> limit))),
                     (''tokenIn'', JString (address token0)),
                     (''tokenOut'', JString (address token1))];
                  quoteV2Params =
                    (if truthy (useQuoterV2 options) \<and> tradeType = EXACT_INPUT
                     then obj_delete ''amount''
                            (obj_set ''amountIn'' (JString quoteAmount) quoteV2Params)
                     else quoteV2Params);
                  tradeTypeFunctionName =
                    (if tradeType = EXACT_INPUT
                     then ''quoteExactInputSingle'' else ''quoteExactOutputSingle'');
                  quoterV1Params = Object_values quoteV2Params
              in returnParameters toHex
                   (encodeFunctionData swapInterface tradeTypeFunctionName
                      (if truthy (useQuoterV2 options)
                       then [JObject quoteV2Params] else quoterV1Params)))
         | _ \<Rightarrow> Inl TypeError)
      else if sqrtPriceLimitX96 options \<noteq> None then
        Inl (InvariantFailed ''MULTIHOP_PRICE_LIMIT'')
      else
        (case encodeRouteToPath route (tradeType = EXACT_OUTPUT) of
           Inl e \<Rightarrow> Inl (EncodingError e)
         | Inr path \<Rightarrow>
             (let tradeTypeFunctionName =
                    (if tradeType = EXACT_INPUT then ''quoteExactInput'' else ''quoteExactOutput'')
              in returnParameters toHex
                   (encodeFunctionData swapInterface tradeTypeFunctionName
                      [JString path, JString quoteAmount]))))"

section \<open>The class as state\<close>

text \<open>
  \<open>quoteCallParameters\<close> is a static method: its \<open>this\<close> is the class \<open>SwapQuoter\<close>, and
  \<open>this.INTERFACE\<close> reads the public static field \<open>INTERFACE\<close>, which is initialised with the
  V1 interface and is assignable like any other field. The definition above takes the field
  at its initial value. The one below reads it from the class, which is passed in and
  returned as the call leaves it, so that what one call hands on to the next is part of the
  model. The body is the same, statement by statement.
\<close>

record SwapQuoter =
  INTERFACE :: QuoterInterface


definition SwapQuoter_quoteCallParameters ::
  "(BigintIsh \<Rightarrow> string) \<Rightarrow> (Route \<Rightarrow> bool \<Rightarrow> 'e + string) \<Rightarrow>
   (QuoterInterface \<Rightarrow> string \<Rightarrow> jsval list \<Rightarrow> 'e + string) \<Rightarrow>
   SwapQuoter \<Rightarrow> Route \<Rightarrow> 'cur CurrencyAmount \<Rightarrow> TradeType \<Rightarrow> QuoteOptions \<Rightarrow>
   ('e error + MethodParameters) \<times> SwapQuoter" where
  "SwapQuoter_quoteCallParameters toHex encodeRouteToPath encodeFunctionData this route amount
     tradeType options =
     (let singleHop = (length (pools route) = 1);
          quoteAmount = toHex (quotient amount);
          swapInterface = (if truthy (useQuoterV2 options) then QuoterV2 else INTERFACE this)
      in
      if singleHop then
        (case (index (pools route) 0, index (tokenPath route) 0, index (tokenPath route) 1) of
           (Some pool0, Some token0, Some token1) \<Rightarrow>
             (let quoteV2Params =
                    [(''amount'', JString quoteAmount),
                     (''fee'', JNumber (fee pool0)),
                     (''sqrtPriceLimitX96'',
                        JString (toHex (case sqrtPriceLimitX96 options of
                                          None \<Rightarrow> 0 | Some limit \<Rightarrow> limit))),
                     (''tokenIn'', JString (address token0)),
                     (''tokenOut'', JString (address token1))];
                  quoteV2Params =
                    (if truthy (useQuoterV2 options) \<and> tradeType = EXACT_INPUT
                     then obj_delete ''amount''
                            (obj_set ''amountIn'' (JString quoteAmount) quoteV2Params)
                     else quoteV2Params);
                  tradeTypeFunctionName =
                    (if tradeType = EXACT_INPUT
                     then ''quoteExactInputSingle'' else ''quoteExactOutputSingle'');
                  quoterV1Params = Object_values quoteV2Params
              in (returnParameters toHex
                    (encodeFunctionData swapInterface tradeTypeFunctionName
                       (if truthy (useQuoterV2 options)
                        then [JObject quoteV2Params] else quoterV1Params)),
                  this))
         | _ \<Rightarrow> (Inl TypeError, this))
      else if sqrtPriceLimitX96 options \<noteq> None then
        (Inl (InvariantFailed ''MULTIHOP_PRICE_LIMIT''), this)
      else
        (case encodeRouteToPath route (tradeType = EXACT_OUTPUT) of
           Inl e \<Rightarrow> (Inl (EncodingError e), this)
         | Inr path \<Rightarrow>
             (let tradeTypeFunctionName =
                    (if tradeType = EXACT_INPUT then ''quoteExactInput'' else ''quoteExactOutput'')
              in (returnParameters toHex
                    (encodeFunctionData swapInterface tradeTypeFunctionName
                       [JString path, JString quoteAmount]),
                  this))))"



section \<open>Sample inputs and collaborators\<close>

text \<open>
  Modelled from the spec: \<open>toHex\<close> of \<open>./utils\<close> is not part of the source at hand. The
  spec describes it on non-negative integers: the lowercase hexadecimal digits after the
  prefix \<open>0x\<close>, and \<open>0x0\<close> for zero. The theorems below hold for every \<open>toHex\<close>; this one
  serves the concrete instances.
\<close>

fun hexDigits :: "nat \<Rightarrow> string" where
  "hexDigits n =
     (if n < 16 then [''0123456789abcdef'' ! n]
      else hexDigits (n div 16) @ [''0123456789abcdef'' ! (n mod 16)])"

declare hexDigits.simps [simp del]

definition toHex_spec :: "BigintIsh \<Rightarrow> string" where
  "toHex_spec n = ''0x'' @ hexDigits (nat n)"

text \<open>
  A path encoder that lists the token addresses of the route, in reverse when asked to, and
  an ABI encoder that knows the four quoting functions and writes the call out in full.
  Both stand in for the real encoders in the concrete instances only.
\<close>

definition samplePathEncoder :: "Route \<Rightarrow> bool \<Rightarrow> string + string" where
  "samplePathEncoder route reverse =
     Inr (concat (map address (if reverse then rev (tokenPath route) else tokenPath route)))"

fun showArgument :: "jsval \<Rightarrow> string" where
  "showArgument (JString s) = s"
| "showArgument (JNumber n) = hexDigits n"
| "showArgument (JObject ps) = concat (map (\<lambda>(k, v). k @ ''='' @ showArgument v @ '';'') ps)"

definition sampleAbiEncoder :: "QuoterInterface \<Rightarrow> string \<Rightarrow> jsval list \<Rightarrow> string + string" where
  "sampleAbiEncoder interface functionName args =
     (if functionName \<in> set [''quoteExactInputSingle'', ''quoteExactOutputSingle'',
                              ''quoteExactInput'', ''quoteExactOutput'']
      then Inr (functionName @ ''('' @ concat (map (\<lambda>a. showArgument a @ '','') args) @ '')'')
      else Inl ''no matching function'')"

definition tokenA :: Token where "tokenA = \<lparr>address = ''0xaaaa''\<rparr>"
definition tokenB :: Token where "tokenB = \<lparr>address = ''0xbbbb''\<rparr>"
definition tokenC :: Token where "tokenC = \<lparr>address = ''0xcccc''\<rparr>"

definition singleHopRoute :: Route where
  "singleHopRoute = \<lparr>pools = [\<lparr>fee = 3000\<rparr>], tokenPath = [tokenA, tokenB]\<rparr>"

definition multiHopRoute :: Route where
  "multiHopRoute =
     \<lparr>pools = [\<lparr>fee = 3000\<rparr>, \<lparr>fee = 500\<rparr>], tokenPath = [tokenA, tokenB, tokenC]\<rparr>"

definition sampleAmount :: "string CurrencyAmount" where
  "sampleAmount = \<lparr>currency = ''WETH'', quotient = 1000\<rparr>"

section \<open>Reading the route\<close>

lemma index_nth: "i < length xs \<Longrightarrow> index xs i = Some (xs ! i)"
  by (induction xs i rule: index.induct) simp_all

lemma single_hop_reads:
  assumes "route_invariant route" and "length (pools route) = 1"
  shows "index (pools route) 0 = Some (pools route ! 0)"
    and "index (tokenPath route) 0 = Some (tokenPath route ! 0)"
    and "index (tokenPath route) (Suc 0) = Some (tokenPath route ! 1)"
  using assms by (simp_all add: route_invariant_def index_nth)

section \<open>The two branches\<close>

text \<open>
  The single-hop branch on a well-formed route: one call of the ABI encoder, whose
  arguments are the object itself for the V2 interface and its values for the V1 interface.
\<close>

lemma single_hop_call:
  assumes "route_invariant route" and "length (pools route) = 1"
  shows "quoteCallParameters toHex encodeRouteToPath encodeFunctionData route amount tradeType options =
    returnParameters toHex
      (encodeFunctionData
         (if truthy (useQuoterV2 options) then QuoterV2 else QuoterV1)
         (if tradeType = EXACT_INPUT then ''quoteExactInputSingle'' else ''quoteExactOutputSingle'')
         (if truthy (useQuoterV2 options)
          then [JObject
                  (if tradeType = EXACT_INPUT
                   then [(''fee'', JNumber (fee (pools route ! 0))),
                         (''sqrtPriceLimitX96'',
                            JString (toHex (case sqrtPriceLimitX96 options of
                                              None \<Rightarrow> 0 | Some limit \<Rightarrow> limit))),
                         (''tokenIn'', JString (address (tokenPath route ! 0))),
                         (''tokenOut'', JString (address (tokenPath route ! 1))),
                         (''amountIn'', JString (toHex (quotient amount)))]
                   else [(''amount'', JString (toHex (quotient amount))),
                         (''fee'', JNumber (fee (pools route ! 0))),
                         (''sqrtPriceLimitX96'',
                            JString (toHex (case sqrtPriceLimitX96 options of
                                              None \<Rightarrow> 0 | Some limit \<Rightarrow> limit))),
                         (''tokenIn'', JString (address (tokenPath route ! 0))),
                         (''tokenOut'', JString (address (tokenPath route ! 1)))])]
          else [JString (toHex (quotient amount)),
                JNumber (fee (pools route ! 0)),
                JString (toHex (case sqrtPriceLimitX96 options of
                                  None \<Rightarrow> 0 | Some limit \<Rightarrow> limit)),
                JString (address (tokenPath route ! 0)),
                JString (address (tokenPath route ! 1))]))"
  using assms
  by (simp add: quoteCallParameters_def single_hop_reads Let_def Object_values_def)

text \<open>
  The other branch without a price limit: the path encoder first, then the ABI encoder.
\<close>

lemma multi_hop_call:
  assumes "length (pools route) \<noteq> 1" and "sqrtPriceLimitX96 options = None"
  shows "quoteCallParameters toHex encodeRouteToPath encodeFunctionData route amount tradeType options =
    (case encodeRouteToPath route (tradeType = EXACT_OUTPUT) of
       Inl e \<Rightarrow> Inl (EncodingError e)
     | Inr path \<Rightarrow>
         returnParameters toHex
           (encodeFunctionData
              (if truthy (useQuoterV2 options) then QuoterV2 else QuoterV1)
              (if tradeType = EXACT_INPUT then ''quoteExactInput'' else ''quoteExactOutput'')
              [JString path, JString (toHex (quotient amount))]))"
  using assms by (simp add: quoteCallParameters_def Let_def split: sum.splits)

lemma multi_hop_limit:
  assumes "length (pools route) \<noteq> 1" and "sqrtPriceLimitX96 options = Some limit"
  shows "quoteCallParameters toHex encodeRouteToPath encodeFunctionData route amount tradeType options =
    Inl (InvariantFailed ''MULTIHOP_PRICE_LIMIT'')"
  using assms by (simp add: quoteCallParameters_def)

lemmas sample_defs =
  route_invariant_def singleHopRoute_def multiHopRoute_def tokenA_def tokenB_def tokenC_def
  sampleAmount_def no_options_def

section \<open>Single-hop quotes\<close>

text \<open>
  C1: on a single-hop route, with \<open>useQuoterV2\<close> false or absent, the ABI encoder (of the
  V1 interface) receives a flat list of five positional arguments, in the order amount, fee,
  price limit, input token, output token. The amount is always its first element: the
  branch that renames it is not taken.
\<close>

theorem single_hop_v1_positional_arguments:
  assumes "route_invariant route"
    and "length (pools route) = 1"
    and "\<not> truthy (useQuoterV2 options)"
  shows "quoteCallParameters toHex encodeRouteToPath encodeFunctionData route amount tradeType options =
    returnParameters toHex
      (encodeFunctionData QuoterV1
         (if tradeType = EXACT_INPUT then ''quoteExactInputSingle'' else ''quoteExactOutputSingle'')
         [JString (toHex (quotient amount)),
          JNumber (fee (pools route ! 0)),
          JString (toHex (case sqrtPriceLimitX96 options of None \<Rightarrow> 0 | Some limit \<Rightarrow> limit)),
          JString (address (tokenPath route ! 0)),
          JString (address (tokenPath route ! 1))])"
  using assms by (simp add: single_hop_call)

theorem single_hop_v1_positional_arguments_witness:
  "route_invariant singleHopRoute \<and> length (pools singleHopRoute) = 1 \<and>
   \<not> truthy (useQuoterV2 no_options) \<and>
   quoteCallParameters toHex_spec samplePathEncoder sampleAbiEncoder singleHopRoute sampleAmount
     EXACT_INPUT no_options =
   returnParameters toHex_spec
     (sampleAbiEncoder QuoterV1 ''quoteExactInputSingle''
        [JString (toHex_spec 1000), JNumber 3000, JString (toHex_spec 0),
         JString ''0xaaaa'', JString ''0xbbbb''])"
  using single_hop_v1_positional_arguments
          [where route = singleHopRoute and options = no_options and tradeType = EXACT_INPUT
             and amount = sampleAmount and toHex = toHex_spec
             and encodeRouteToPath = samplePathEncoder and encodeFunctionData = sampleAbiEncoder]
  by (simp add: sample_defs)

text \<open>
  C5: on a single-hop route with \<open>useQuoterV2\<close> true, the ABI encoder (of the V2
  interface) receives the parameter object as its single argument. For an exact-input trade
  the object holds the quote amount under \<open>amountIn\<close> and has no \<open>amount\<close> property; its
  fee, price limit, input token and output token are as they were built. For an exact-output
  trade the object keeps \<open>amount\<close>.
\<close>

theorem single_hop_v2_structured_argument:
  assumes "route_invariant route"
    and "length (pools route) = 1"
    and "truthy (useQuoterV2 options)"
  shows "quoteCallParameters toHex encodeRouteToPath encodeFunctionData route amount tradeType options =
    returnParameters toHex
      (encodeFunctionData QuoterV2
         (if tradeType = EXACT_INPUT then ''quoteExactInputSingle'' else ''quoteExactOutputSingle'')
         [JObject
            (if tradeType = EXACT_INPUT
             then [(''fee'', JNumber (fee (pools route ! 0))),
                   (''sqrtPriceLimitX96'',
                      JString (toHex (case sqrtPriceLimitX96 options of
                                        None \<Rightarrow> 0 | Some limit \<Rightarrow> limit))),
                   (''tokenIn'', JString (address (tokenPath route ! 0))),
                   (''tokenOut'', JString (address (tokenPath route ! 1))),
                   (''amountIn'', JString (toHex (quotient amount)))]
             else [(''amount'', JString (toHex (quotient amount))),
                   (''fee'', JNumber (fee (pools route ! 0))),
                   (''sqrtPriceLimitX96'',
                      JString (toHex (case sqrtPriceLimitX96 options of
                                        None \<Rightarrow> 0 | Some limit \<Rightarrow> limit))),
                   (''tokenIn'', JString (address (tokenPath route ! 0))),
                   (''tokenOut'', JString (address (tokenPath route ! 1)))])])"
  using assms by (simp add: single_hop_call)

theorem single_hop_v2_structured_argument_witness:
  "route_invariant singleHopRoute \<and> length (pools singleHopRoute) = 1 \<and>
   truthy (useQuoterV2 (no_options\<lparr>useQuoterV2 := Some True\<rparr>)) \<and>
   quoteCallParameters toHex_spec samplePathEncoder sampleAbiEncoder singleHopRoute sampleAmount
     EXACT_INPUT (no_options\<lparr>useQuoterV2 := Some True\<rparr>) =
   returnParameters toHex_spec
     (sampleAbiEncoder QuoterV2 ''quoteExactInputSingle''
        [JObject [(''fee'', JNumber 3000),
                  (''sqrtPriceLimitX96'', JString (toHex_spec 0)),
                  (''tokenIn'', JString ''0xaaaa''),
                  (''tokenOut'', JString ''0xbbbb''),
                  (''amountIn'', JString (toHex_spec 1000))]])"
  using single_hop_v2_structured_argument
          [where route = singleHopRoute and options = "no_options\<lparr>useQuoterV2 := Some True\<rparr>"
             and tradeType = EXACT_INPUT and amount = sampleAmount and toHex = toHex_spec
             and encodeRouteToPath = samplePathEncoder and encodeFunctionData = sampleAbiEncoder]
  by (simp add: sample_defs)

text \<open>
  C10: on a single-hop route, for both trade types and both interfaces, leaving
  \<open>sqrtPriceLimitX96\<close> out gives the same result as supplying it as 0.
\<close>

theorem single_hop_zero_price_limit_is_default:
  assumes "length (pools route) = 1"
  shows "quoteCallParameters toHex encodeRouteToPath encodeFunctionData route amount tradeType
           (options\<lparr>sqrtPriceLimitX96 := None\<rparr>) =
         quoteCallParameters toHex encodeRouteToPath encodeFunctionData route amount tradeType
           (options\<lparr>sqrtPriceLimitX96 := Some 0\<rparr>)"
  using assms by (simp add: quoteCallParameters_def Let_def split: option.splits)

theorem single_hop_zero_price_limit_is_default_witness:
  "length (pools singleHopRoute) = 1 \<and>
   quoteCallParameters toHex_spec samplePathEncoder sampleAbiEncoder singleHopRoute sampleAmount
     EXACT_OUTPUT \<lparr>sqrtPriceLimitX96 = None, useQuoterV2 = Some True\<rparr> =
   quoteCallParameters toHex_spec samplePathEncoder sampleAbiEncoder singleHopRoute sampleAmount
     EXACT_OUTPUT \<lparr>sqrtPriceLimitX96 = Some 0, useQuoterV2 = Some True\<rparr>"
  using single_hop_zero_price_limit_is_default
          [where route = singleHopRoute and tradeType = EXACT_OUTPUT and amount = sampleAmount
             and options = "\<lparr>sqrtPriceLimitX96 = None, useQuoterV2 = Some True\<rparr>"
             and toHex = toHex_spec
             and encodeRouteToPath = samplePathEncoder and encodeFunctionData = sampleAbiEncoder]
  by (simp add: singleHopRoute_def)

section \<open>Multi-hop quotes\<close>

text \<open>
  C2: on a multi-hop route, a present \<open>sqrtPriceLimitX96\<close> makes the call fail with the
  invariant error \<open>MULTIHOP_PRICE_LIMIT\<close>, whatever the trade type, the interface and the
  two encoders are (so also when the encoders themselves would throw: they are not reached),
  and no result is produced. With the price limit absent the call never fails with an
  invariant error.
\<close>

theorem multi_hop_price_limit_rejected:
  assumes "1 < length (pools route)"
  shows "(quoteCallParameters toHex encodeRouteToPath encodeFunctionData route amount tradeType options
            = Inl (InvariantFailed ''MULTIHOP_PRICE_LIMIT''))
         = (sqrtPriceLimitX96 options \<noteq> None)
       \<and> (\<exists>message. quoteCallParameters toHex encodeRouteToPath encodeFunctionData route amount
                       tradeType options = Inl (InvariantFailed message))
         = (sqrtPriceLimitX96 options \<noteq> None)"
proof (cases "sqrtPriceLimitX96 options")
  case None
  with assms show ?thesis
    by (auto simp add: multi_hop_call returnParameters_def split: sum.splits)
next
  case (Some limit)
  with assms show ?thesis
    by (simp add: multi_hop_limit)
qed

theorem multi_hop_price_limit_rejected_witness:
  "1 < length (pools multiHopRoute) \<and>
   quoteCallParameters toHex_spec (\<lambda>route reverse. Inl ''path encoder reached'')
     (\<lambda>interface functionName args. Inl ''ABI encoder reached'') multiHopRoute sampleAmount
     EXACT_INPUT \<lparr>sqrtPriceLimitX96 = Some 79228162514264337593543950336, useQuoterV2 = None\<rparr>
     = Inl (InvariantFailed ''MULTIHOP_PRICE_LIMIT'') \<and>
   quoteCallParameters toHex_spec (\<lambda>route reverse. Inl ''path encoder reached'')
     (\<lambda>interface functionName args. Inl ''ABI encoder reached'') multiHopRoute sampleAmount
     EXACT_INPUT \<lparr>sqrtPriceLimitX96 = None, useQuoterV2 = None\<rparr>
     \<noteq> Inl (InvariantFailed ''MULTIHOP_PRICE_LIMIT'')"
  using multi_hop_price_limit_rejected
          [where route = multiHopRoute and tradeType = EXACT_INPUT and amount = sampleAmount
             and options = "\<lparr>sqrtPriceLimitX96 = Some 79228162514264337593543950336,
                              useQuoterV2 = None\<rparr>"
             and toHex = toHex_spec
             and encodeRouteToPath = "\<lambda>route reverse. Inl ''path encoder reached''"
             and encodeFunctionData = "\<lambda>interface functionName args. Inl ''ABI encoder reached''"]
        multi_hop_price_limit_rejected
          [where route = multiHopRoute and tradeType = EXACT_INPUT and amount = sampleAmount
             and options = "\<lparr>sqrtPriceLimitX96 = None, useQuoterV2 = None\<rparr>"
             and toHex = toHex_spec
             and encodeRouteToPath = "\<lambda>route reverse. Inl ''path encoder reached''"
             and encodeFunctionData = "\<lambda>interface functionName args. Inl ''ABI encoder reached''"]
  by (simp add: multiHopRoute_def)

text \<open>
  C9: on a multi-hop route, \<open>sqrtPriceLimitX96\<close> supplied as 0, the value that stands for
  no limit, is rejected with the same error: the test is whether the option is present.
\<close>

theorem multi_hop_zero_price_limit_rejected:
  assumes "1 < length (pools route)"
    and "sqrtPriceLimitX96 options = Some 0"
  shows "quoteCallParameters toHex encodeRouteToPath encodeFunctionData route amount tradeType options
           = Inl (InvariantFailed ''MULTIHOP_PRICE_LIMIT'')"
  using assms by (simp add: multi_hop_limit)

theorem multi_hop_zero_price_limit_rejected_witness:
  "1 < length (pools multiHopRoute) \<and>
   sqrtPriceLimitX96 \<lparr>sqrtPriceLimitX96 = Some 0, useQuoterV2 = Some True\<rparr> = Some 0 \<and>
   quoteCallParameters toHex_spec samplePathEncoder sampleAbiEncoder multiHopRoute sampleAmount
     EXACT_OUTPUT \<lparr>sqrtPriceLimitX96 = Some 0, useQuoterV2 = Some True\<rparr>
     = Inl (InvariantFailed ''MULTIHOP_PRICE_LIMIT'')"
  using multi_hop_zero_price_limit_rejected
          [where route = multiHopRoute and tradeType = EXACT_OUTPUT and amount = sampleAmount
             and options = "\<lparr>sqrtPriceLimitX96 = Some 0, useQuoterV2 = Some True\<rparr>"
             and toHex = toHex_spec
             and encodeRouteToPath = samplePathEncoder and encodeFunctionData = sampleAbiEncoder]
  by (simp add: multiHopRoute_def)

text \<open>
  C4: on a multi-hop route without a price limit, the path comes from the path encoder
  called with the reverse flag set exactly when the trade type is exact output, and the
  calldata is the encoding of the two positional arguments path and quote amount against the
  interface that \<open>useQuoterV2\<close> selects.
\<close>

theorem multi_hop_path_and_arguments:
  assumes "1 < length (pools route)"
    and "sqrtPriceLimitX96 options = None"
  shows "quoteCallParameters toHex encodeRouteToPath encodeFunctionData route amount tradeType options =
    (case encodeRouteToPath route (tradeType = EXACT_OUTPUT) of
       Inl e \<Rightarrow> Inl (EncodingError e)
     | Inr path \<Rightarrow>
         returnParameters toHex
           (encodeFunctionData
              (if truthy (useQuoterV2 options) then QuoterV2 else QuoterV1)
              (if tradeType = EXACT_INPUT then ''quoteExactInput'' else ''quoteExactOutput'')
              [JString path, JString (toHex (quotient amount))]))"
  using assms by (simp add: multi_hop_call)

theorem multi_hop_path_and_arguments_witness:
  "1 < length (pools multiHopRoute) \<and> sqrtPriceLimitX96 no_options = None \<and>
   quoteCallParameters toHex_spec samplePathEncoder sampleAbiEncoder multiHopRoute sampleAmount
     EXACT_OUTPUT no_options =
   returnParameters toHex_spec
     (sampleAbiEncoder QuoterV1 ''quoteExactOutput''
        [JString ''0xcccc0xbbbb0xaaaa'', JString (toHex_spec 1000)])"
  using multi_hop_path_and_arguments
          [where route = multiHopRoute and tradeType = EXACT_OUTPUT and amount = sampleAmount
             and options = no_options and toHex = toHex_spec
             and encodeRouteToPath = samplePathEncoder and encodeFunctionData = sampleAbiEncoder]
  by (simp add: sample_defs samplePathEncoder_def)

section \<open>The function name\<close>

text \<open>
  C3: whenever the ABI encoder is called, for either interface, the function name it is
  given is \<open>quoteExactInputSingle\<close> on a single-hop route with an exact-input trade,
  \<open>quoteExactOutputSingle\<close> on a single-hop route with an exact-output trade,
  \<open>quoteExactInput\<close> on a multi-hop route with an exact-input trade and
  \<open>quoteExactOutput\<close> on a multi-hop route with an exact-output trade. (On a multi-hop
  route the ABI encoder is called when there is no price limit and the path encoder has
  returned a path.) The argument list does not depend on the ABI encoder.
\<close>

theorem function_name_by_hops_and_trade_type:
  assumes "route_invariant route"
    and "length (pools route) = 1 \<or>
         (sqrtPriceLimitX96 options = None \<and>
          encodeRouteToPath route (tradeType = EXACT_OUTPUT) = Inr path)"
  shows "\<exists>args. \<forall>encodeFunctionData.
           quoteCallParameters toHex encodeRouteToPath encodeFunctionData route amount tradeType options =
           returnParameters toHex
             (encodeFunctionData
                (if truthy (useQuoterV2 options) then QuoterV2 else QuoterV1)
                (if length (pools route) = 1
                 then (if tradeType = EXACT_INPUT
                       then ''quoteExactInputSingle'' else ''quoteExactOutputSingle'')
                 else (if tradeType = EXACT_INPUT
                       then ''quoteExactInput'' else ''quoteExactOutput''))
                args)"
proof (cases "length (pools route) = 1")
  case True
  with assms(1) show ?thesis
    by (simp add: single_hop_call) blast
next
  case False
  with assms(2) show ?thesis
    by (simp add: multi_hop_call) blast
qed

theorem function_name_by_hops_and_trade_type_witness:
  "route_invariant singleHopRoute \<and> length (pools singleHopRoute) = 1 \<and>
   (\<exists>args. \<forall>encodeFunctionData.
      quoteCallParameters toHex_spec samplePathEncoder encodeFunctionData singleHopRoute
        sampleAmount EXACT_INPUT no_options =
      returnParameters toHex_spec (encodeFunctionData QuoterV1 ''quoteExactInputSingle'' args)) \<and>
   route_invariant multiHopRoute \<and>
   sqrtPriceLimitX96 (no_options\<lparr>useQuoterV2 := Some True\<rparr>) = None \<and>
   samplePathEncoder multiHopRoute (EXACT_OUTPUT = EXACT_OUTPUT) = Inr ''0xcccc0xbbbb0xaaaa'' \<and>
   (\<exists>args. \<forall>encodeFunctionData.
      quoteCallParameters toHex_spec samplePathEncoder encodeFunctionData multiHopRoute
        sampleAmount EXACT_OUTPUT (no_options\<lparr>useQuoterV2 := Some True\<rparr>) =
      returnParameters toHex_spec (encodeFunctionData QuoterV2 ''quoteExactOutput'' args))"
  using function_name_by_hops_and_trade_type
          [where route = singleHopRoute and tradeType = EXACT_INPUT and amount = sampleAmount
             and options = no_options and toHex = toHex_spec
             and encodeRouteToPath = samplePathEncoder]
        function_name_by_hops_and_trade_type
          [where route = multiHopRoute and tradeType = EXACT_OUTPUT and amount = sampleAmount
             and options = "no_options\<lparr>useQuoterV2 := Some True\<rparr>" and toHex = toHex_spec
             and encodeRouteToPath = samplePathEncoder and path = "''0xcccc0xbbbb0xaaaa''"]
  by (simp add: sample_defs samplePathEncoder_def)

section \<open>Properties of every call\<close>

text \<open>
  C6: whenever the call returns a result, whatever the route, amount, trade type and
  options are, the \<open>value\<close> field of the result is the hex encoding of zero.
\<close>

theorem value_is_hex_zero:
  assumes "quoteCallParameters toHex encodeRouteToPath encodeFunctionData route amount tradeType options
             = Inr result"
  shows "value result = toHex 0"
  using assms
  by (auto simp add: quoteCallParameters_def returnParameters_def Let_def
      split: if_splits sum.splits option.splits prod.splits)

theorem value_is_hex_zero_witness:
  "quoteCallParameters toHex_spec samplePathEncoder sampleAbiEncoder singleHopRoute sampleAmount
     EXACT_INPUT no_options =
     Inr \<lparr>calldata = ''quoteExactInputSingle(0x3e8,bb8,0x0,0xaaaa,0xbbbb,)'', value = ''0x0''\<rparr> \<and>
   value \<lparr>calldata = ''quoteExactInputSingle(0x3e8,bb8,0x0,0xaaaa,0xbbbb,)'', value = ''0x0''\<rparr>
     = toHex_spec 0"
proof -
  have run:
    "quoteCallParameters toHex_spec samplePathEncoder sampleAbiEncoder singleHopRoute sampleAmount
       EXACT_INPUT no_options =
     Inr \<lparr>calldata = ''quoteExactInputSingle(0x3e8,bb8,0x0,0xaaaa,0xbbbb,)'', value = ''0x0''\<rparr>"
    by code_simp
  from value_is_hex_zero [OF run] run show ?thesis
    by simp
qed

text \<open>
  With the static field at its initial value, the call on the class is the call as defined
  first, and whatever the field holds, the call hands the class on as it found it.
\<close>

lemma SwapQuoter_quoteCallParameters_initial:
  assumes "INTERFACE this = QuoterV1"
  shows "SwapQuoter_quoteCallParameters toHex encodeRouteToPath encodeFunctionData this route
           amount tradeType options =
         (quoteCallParameters toHex encodeRouteToPath encodeFunctionData route amount tradeType
            options, this)"
  using assms
  by (simp add: SwapQuoter_quoteCallParameters_def quoteCallParameters_def Let_def
      split: option.splits sum.splits)

lemma SwapQuoter_unchanged:
  "snd (SwapQuoter_quoteCallParameters toHex encodeRouteToPath encodeFunctionData this route
          amount tradeType options) = this"
  by (simp add: SwapQuoter_quoteCallParameters_def Let_def split: option.splits sum.splits)

text \<open>
  The static field is read: on the V1 path the same inputs give another outcome once the
  field holds another interface. Here the ABI encoder throws the interface it was called on.
\<close>

lemma static_interface_is_read:
  "fst (SwapQuoter_quoteCallParameters toHex_spec samplePathEncoder
          (\<lambda>interface functionName args. Inl (if interface = QuoterV1 then ''V1'' else ''V2''))
          \<lparr>INTERFACE = QuoterV1\<rparr> multiHopRoute sampleAmount EXACT_INPUT no_options) \<noteq>
   fst (SwapQuoter_quoteCallParameters toHex_spec samplePathEncoder
          (\<lambda>interface functionName args. Inl (if interface = QuoterV1 then ''V1'' else ''V2''))
          \<lparr>INTERFACE = QuoterV2\<rparr> multiHopRoute sampleAmount EXACT_INPUT no_options)"
  by (simp add: SwapQuoter_quoteCallParameters_def samplePathEncoder_def returnParameters_def
      multiHopRoute_def no_options_def)

text \<open>
  Two calls in a row with the same inputs: the second is made on the class the first has
  left, which is the class the first was made on.
\<close>

lemma repeated_call_same_result:
  assumes "SwapQuoter_quoteCallParameters toHex encodeRouteToPath encodeFunctionData this route
             amount tradeType options = (result, this')"
    and "SwapQuoter_quoteCallParameters toHex encodeRouteToPath encodeFunctionData this' route
             amount tradeType options = (result', this'')"
  shows "result' = result \<and> this' = this \<and> this'' = this"
proof -
  from assms(1) have first: "this' = this"
    using SwapQuoter_unchanged
            [of toHex encodeRouteToPath encodeFunctionData this route amount tradeType options]
    by simp
  from assms(2) have second: "this'' = this'"
    using SwapQuoter_unchanged
            [of toHex encodeRouteToPath encodeFunctionData this' route amount tradeType options]
    by simp
  from assms first have "result' = result"
    by simp
  with first second show ?thesis
    by simp
qed




text \<open>
  C8: the amount enters the result through its integer quantity only: two amounts with
  the same quantity, in whatever currencies, give the same result when everything else is
  the same.
\<close>

theorem amount_only_through_quotient:
  fixes amount :: "'a CurrencyAmount" and amount' :: "'b CurrencyAmount"
  assumes "quotient amount = quotient amount'"
  shows "quoteCallParameters toHex encodeRouteToPath encodeFunctionData route amount tradeType options =
         quoteCallParameters toHex encodeRouteToPath encodeFunctionData route amount' tradeType options"
  using assms by (simp add: quoteCallParameters_def)

theorem amount_only_through_quotient_witness:
  "quotient \<lparr>currency = ''WETH'', quotient = 1000\<rparr> = quotient \<lparr>currency = ''DAI'', quotient = 1000\<rparr> \<and>
   ''WETH'' \<noteq> ''DAI'' \<and>
   quoteCallParameters toHex_spec samplePathEncoder sampleAbiEncoder singleHopRoute
     \<lparr>currency = ''WETH'', quotient = 1000\<rparr> EXACT_INPUT no_options =
   quoteCallParameters toHex_spec samplePathEncoder sampleAbiEncoder singleHopRoute
     \<lparr>currency = ''DAI'', quotient = 1000\<rparr> EXACT_INPUT no_options"
  using amount_only_through_quotient
          [where amount = "\<lparr>currency = ''WETH'', quotient = 1000\<rparr>"
             and amount' = "\<lparr>currency = ''DAI'', quotient = 1000\<rparr>"
             and route = singleHopRoute and tradeType = EXACT_INPUT and options = no_options
             and toHex = toHex_spec
             and encodeRouteToPath = samplePathEncoder and encodeFunctionData = sampleAbiEncoder]
  by simp

end
